theory Spec2Isabelle
  imports Main "HOL-Library.Word"
begin

unbundle bit_operations_syntax

section \<open>Python values used by the driver\<close>

text \<open>
  The driver is the class \<open>GuaritaIP\<close> of \<open>GuaritaIP.py\<close>. A Python \<open>bytes\<close> object is a
  list of 8-bit words. A Python \<open>str\<close> is a \<open>string\<close>, one \<open>char\<close> per code point, which
  covers the strings whose code points are below 256; the integer \<open>ord\<close> of a character is
  \<open>of_char\<close>. Python integers are unbounded: \<open>int\<close>, or \<open>nat\<close> where the value cannot be
  negative. Every exception the code can raise is a value of \<open>exn\<close>, and a computation that
  may raise returns \<open>exn + 'a\<close>.
\<close>

type_synonym byte = "8 word"

datatype exn =
  ValueError | BinasciiError | UnicodeDecodeError | OverflowError | SocketTimeout | OSError

subsection \<open>Digits, \<open>hex\<close>, \<open>str\<close>, \<open>int\<close>\<close>

definition hex_val :: "char \<Rightarrow> nat option" where
  "hex_val c =
     (let n = (of_char c :: nat)
      in if 48 \<le> n \<and> n \<le> 57 then Some (n - 48)
         else if 97 \<le> n \<and> n \<le> 102 then Some (n - 87)
         else if 65 \<le> n \<and> n \<le> 70 then Some (n - 55)
         else None)"

definition is_hex :: "char \<Rightarrow> bool" where
  "is_hex c = (hex_val c \<noteq> None)"

text \<open>The digit that \<open>hex\<close> and \<open>str\<close> print for a value below 16: lowercase.\<close>

definition hex_digit :: "nat \<Rightarrow> char" where
  "hex_digit n = char_of (if n < 10 then 48 + n else 87 + n)"

fun hex_digits :: "nat \<Rightarrow> string" where
  "hex_digits n = (if n < 16 then [hex_digit n] else hex_digits (n div 16) @ [hex_digit (n mod 16)])"

declare hex_digits.simps [simp del]

text \<open>\<open>hex(i)\<close>: \<open>'0x..'\<close>, with the sign in front for a negative integer.\<close>

definition py_hex :: "int \<Rightarrow> string" where
  "py_hex i = (if i < 0 then ''-0x'' @ hex_digits (nat (- i)) else ''0x'' @ hex_digits (nat i))"

text \<open>\<open>str(n)\<close> for a non-negative integer: its decimal digits.\<close>

fun py_str :: "nat \<Rightarrow> string" where
  "py_str n = (if n < 10 then [hex_digit n] else py_str (n div 10) @ [hex_digit (n mod 10)])"

declare py_str.simps [simp del]

text \<open>The characters \<open>str.strip\<close> and \<open>int\<close> treat as white space, among the code points below 256.\<close>

definition is_space :: "char \<Rightarrow> bool" where
  "is_space c = ((of_char c :: nat) \<in> {9, 10, 11, 12, 13, 28, 29, 30, 31, 32, 133, 160})"

definition strip :: "string \<Rightarrow> string" where
  "strip s = rev (dropWhile is_space (rev (dropWhile is_space s)))"

definition digit_val :: "nat \<Rightarrow> char \<Rightarrow> nat option" where
  "digit_val b c = (case hex_val c of None \<Rightarrow> None | Some v \<Rightarrow> if v < b then Some v else None)"

fun digits_val :: "nat \<Rightarrow> nat \<Rightarrow> string \<Rightarrow> nat option" where
  "digits_val b acc [] = Some acc"
| "digits_val b acc (c # cs) =
     (case digit_val b c of None \<Rightarrow> None | Some v \<Rightarrow> digits_val b (acc * b + v) cs)"

text \<open>
  \<open>int(s, b)\<close> for \<open>b\<close> 10 or 16: white space around the literal is dropped, one sign is
  allowed, then at least one digit of the base; anything else raises \<open>ValueError\<close>.
  Python also accepts a base prefix (\<open>0x\<close>) and single underscores between digits. Neither
  is modelled, and neither can occur where the driver calls \<open>int\<close>: with base 16 it passes
  slices of at most two characters, and no such slice with a prefix or an underscore is a
  literal; with base 10 it passes concatenations of \<open>str\<close> of non-negative integers.
\<close>

definition py_int :: "nat \<Rightarrow> string \<Rightarrow> exn + int" where
  "py_int b s =
     (case strip s of
        [] \<Rightarrow> Inl ValueError
      | c # r \<Rightarrow>
          let neg = (c = CHR ''-'');
              ds = (if c = CHR ''-'' \<or> c = CHR ''+'' then r else c # r)
          in if ds = [] then Inl ValueError
             else (case digits_val b 0 ds of
                     None \<Rightarrow> Inl ValueError
                   | Some v \<Rightarrow> Inr (if neg then - int v else int v)))"

subsection \<open>String helpers\<close>

text \<open>\<open>s.lstrip(cs)\<close> drops the leading characters that occur in \<open>cs\<close>.\<close>

definition lstrip :: "string \<Rightarrow> string \<Rightarrow> string" where
  "lstrip cs s = dropWhile (\<lambda>c. c \<in> set cs) s"

text \<open>\<open>s[-2:]\<close>: the last two characters, the whole string when it is shorter.\<close>

definition last2 :: "string \<Rightarrow> string" where
  "last2 s = drop (length s - 2) s"

text \<open>\<open>s.zfill(w)\<close>: zeros on the left up to width \<open>w\<close>, after a leading sign.\<close>

definition zfill :: "nat \<Rightarrow> string \<Rightarrow> string" where
  "zfill w s =
     (if w \<le> length s then s
      else (case s of
              [] \<Rightarrow> replicate w (CHR ''0'')
            | c # r \<Rightarrow>
                if c = CHR ''+'' \<or> c = CHR ''-''
                then c # replicate (w - length s) (CHR ''0'') @ r
                else replicate (w - length s) (CHR ''0'') @ s))"

text \<open>
  \<open>binascii.a2b_hex\<close> on a \<open>str\<close>: a non-ASCII character raises \<open>ValueError\<close>; an odd
  length or a character that is no hexadecimal digit raises \<open>binascii.Error\<close>.
\<close>

fun unhex :: "string \<Rightarrow> byte list option" where
  "unhex [] = Some []"
| "unhex [a] = None"
| "unhex (a # b # r) =
     (case hex_val a of
        None \<Rightarrow> None
      | Some h \<Rightarrow>
          (case hex_val b of
             None \<Rightarrow> None
           | Some l \<Rightarrow> map_option (\<lambda>bs. of_nat (16 * h + l) # bs) (unhex r)))"

definition a2b_hex :: "string \<Rightarrow> exn + byte list" where
  "a2b_hex s =
     (if list_ex (\<lambda>c. 128 \<le> (of_char c :: nat)) s then Inl ValueError
      else (case unhex s of None \<Rightarrow> Inl BinasciiError | Some bs \<Rightarrow> Inr bs))"

section \<open>Frame codec\<close>

subsection \<open>\<open>_add_checksum\<close>\<close>

text \<open>The slices \<open>input_hex[i:i+2]\<close> for \<open>i\<close> in \<open>range(0, len(input_hex), 2)\<close>.\<close>

fun pairs :: "string \<Rightarrow> string list" where
  "pairs [] = []"
| "pairs [a] = [[a]]"
| "pairs (a # b # r) = [a, b] # pairs r"

text \<open>The sum of \<open>int(p, 16)\<close> over the slices; the first slice that is no literal raises.\<close>

fun sum_int16 :: "string list \<Rightarrow> exn + int" where
  "sum_int16 [] = Inr 0"
| "sum_int16 (p # ps) =
     (case py_int 16 p of
        Inl e \<Rightarrow> Inl e
      | Inr v \<Rightarrow> (case sum_int16 ps of Inl e \<Rightarrow> Inl e | Inr t \<Rightarrow> Inr (v + t)))"

definition add_checksum :: "string \<Rightarrow> exn + byte list" where
  "add_checksum input_hex =
     (case sum_int16 (pairs input_hex) of
        Inl e \<Rightarrow> Inl e
      | Inr cs \<Rightarrow>
          let cs_str = (if cs > 255 then last2 (py_hex cs) else lstrip ''0x'' (py_hex cs))
          in a2b_hex (input_hex @ zfill 2 cs_str))"

text \<open>
  The checksum of the data model, in the spec's words: the least-significant byte of the
  sum of the byte values.
\<close>

definition checksum :: "byte list \<Rightarrow> byte" where
  "checksum bs = of_nat (sum_list (map unat bs) mod 256)"

subsection \<open>\<open>_remove_extra_byte\<close>\<close>

text \<open>\<open>xs[i:j]\<close> for indices that are not negative: empty when \<open>j \<le> i\<close>.\<close>

definition slice :: "nat \<Rightarrow> nat \<Rightarrow> 'a list \<Rightarrow> 'a list" where
  "slice i j xs = take (j - i) (drop i xs)"

text \<open>The condition of the source compares \<open>input_hex[:2]\<close> with \<open>input_hex[2:2]\<close>.\<close>

definition remove_extra_byte :: "string \<Rightarrow> string" where
  "remove_extra_byte input_hex =
     (if take 2 input_hex = slice 2 2 input_hex \<and> take 2 input_hex = ''00''
      then drop 2 input_hex
      else input_hex)"

subsection \<open>\<open>_bcdDigits\<close>\<close>

text \<open>
  The generator, as the list of the strings it yields. Its argument is the list of
  \<open>ord(char)\<close> of the elements of \<open>chars\<close>: a byte gives a value below 256, a character
  of a \<open>str\<close> gives its code point. \<open>return\<close> at a value \<open>0xF\<close> ends the generator.
\<close>

fun bcdDigits :: "nat list \<Rightarrow> string list" where
  "bcdDigits [] = []"
| "bcdDigits (char # chars) =
     (if drop_bit 4 char = 15 then []
      else if char AND 15 = 15 then [py_str (drop_bit 4 char)]
      else py_str (drop_bit 4 char) # py_str (char AND 15) # bcdDigits chars)"

text \<open>
  The decoder in the spec's words: the nibbles of the bytes in order, the high one first,
  cut at the first nibble that equals \<open>0xF\<close>, each nibble 0 to 9 converted to its digit
  character.
\<close>

fun nibbles :: "byte list \<Rightarrow> nat list" where
  "nibbles [] = []"
| "nibbles (b # bs) = unat (drop_bit 4 b) # unat (b AND 15) # nibbles bs"

definition digit_char :: "nat \<Rightarrow> string" where
  "digit_char v = [char_of (48 + v)]"

definition decode_bcd_spec :: "byte list \<Rightarrow> string list" where
  "decode_bcd_spec bs = map digit_char (takeWhile (\<lambda>v. v \<noteq> 15) (nibbles bs))"

text \<open>Binary-coded decimals: every nibble before the terminator is a digit 0 to 9.\<close>

definition is_bcd :: "byte list \<Rightarrow> bool" where
  "is_bcd bs = list_all (\<lambda>v. v \<le> 9) (takeWhile (\<lambda>v. v \<noteq> 15) (nibbles bs))"

text \<open>A string that is one decimal digit character.\<close>

definition is_digit_char :: "string \<Rightarrow> bool" where
  "is_digit_char s = (case s of [c] \<Rightarrow> 48 \<le> (of_char c :: nat) \<and> (of_char c :: nat) \<le> 57 | _ \<Rightarrow> False)"

section \<open>Device session client\<close>

subsection \<open>Decoding \<open>bytes\<close> to \<open>str\<close>\<close>

definition cont :: "byte \<Rightarrow> bool" where
  "cont b = (128 \<le> unat b \<and> unat b \<le> 191)"

text \<open>
  \<open>str(bs, 'utf_8')\<close>, as the list of the code points of the result; \<open>None\<close> is
  \<open>UnicodeDecodeError\<close> (an invalid start byte, an invalid or missing continuation byte,
  an overlong form, a surrogate, a code point above \<open>0x10FFFF\<close>).
\<close>

fun utf8_decode :: "byte list \<Rightarrow> nat list option" where
  "utf8_decode [] = Some []"
| "utf8_decode (b # bs) =
     (let n = unat b in
      if n < 128 then map_option (\<lambda>r. n # r) (utf8_decode bs)
      else if 194 \<le> n \<and> n \<le> 223 then
        (case bs of
           c1 # r \<Rightarrow>
             if cont c1
             then map_option (\<lambda>t. ((n - 192) * 64 + (unat c1 - 128)) # t) (utf8_decode r)
             else None
         | _ \<Rightarrow> None)
      else if 224 \<le> n \<and> n \<le> 239 then
        (case bs of
           c1 # c2 # r \<Rightarrow>
             if cont c1 \<and> cont c2 \<and> (if n = 224 then 160 \<le> unat c1 else True)
                \<and> (if n = 237 then unat c1 \<le> 159 else True)
             then map_option
                    (\<lambda>t. ((n - 224) * 4096 + (unat c1 - 128) * 64 + (unat c2 - 128)) # t)
                    (utf8_decode r)
             else None
         | _ \<Rightarrow> None)
      else if 240 \<le> n \<and> n \<le> 244 then
        (case bs of
           c1 # c2 # c3 # r \<Rightarrow>
             if cont c1 \<and> cont c2 \<and> cont c3
                \<and> (if n = 240 then 144 \<le> unat c1 else True)
                \<and> (if n = 244 then unat c1 \<le> 143 else True)
             then map_option
                    (\<lambda>t. ((n - 240) * 262144 + (unat c1 - 128) * 4096
                           + (unat c2 - 128) * 64 + (unat c3 - 128)) # t)
                    (utf8_decode r)
             else None
         | _ \<Rightarrow> None)
      else None)"

text \<open>\<open>s.encode("utf-8")\<close> for a string whose code points are below 256.\<close>

fun utf8_encode :: "string \<Rightarrow> byte list" where
  "utf8_encode [] = []"
| "utf8_encode (c # cs) =
     (let n = (of_char c :: nat) in
      if n < 128 then of_nat n # utf8_encode cs
      else of_nat (192 + n div 64) # of_nat (128 + n mod 64) # utf8_encode cs)"

subsection \<open>\<open>datetime\<close>\<close>

record datetime =
  year :: int
  month :: int
  day :: int
  hour :: int
  minute :: int
  second :: int

definition is_leap :: "int \<Rightarrow> bool" where
  "is_leap y = (y mod 4 = 0 \<and> (if y mod 100 = 0 then y mod 400 = 0 else True))"

definition days_in_month :: "int \<Rightarrow> int \<Rightarrow> int" where
  "days_in_month y m =
     (if m = 2 then (if is_leap y then 29 else 28)
      else if m = 4 \<or> m = 6 \<or> m = 9 \<or> m = 11 then 30
      else 31)"

text \<open>
  The constructor \<open>datetime(year, month, day, hour, minute, second)\<close>: an argument that does
  not fit a C \<open>int\<close> raises \<open>OverflowError\<close>, a field out of its range raises \<open>ValueError\<close>.
\<close>

definition mk_datetime :: "int \<Rightarrow> int \<Rightarrow> int \<Rightarrow> int \<Rightarrow> int \<Rightarrow> int \<Rightarrow> exn + datetime" where
  "mk_datetime y m d h mi s =
     (if list_ex (\<lambda>v. v < - 2147483648 \<or> 2147483647 < v) [y, m, d, h, mi, s] then Inl OverflowError
      else if 1 \<le> y \<and> y \<le> 9999 \<and> 1 \<le> m \<and> m \<le> 12 \<and> 1 \<le> d \<and> d \<le> days_in_month y m
              \<and> 0 \<le> h \<and> h \<le> 23 \<and> 0 \<le> mi \<and> mi \<le> 59 \<and> 0 \<le> s \<and> s \<le> 59
      then Inr \<lparr>year = y, month = m, day = d, hour = h, minute = mi, second = s\<rparr>
      else Inl ValueError)"

text \<open>\<open>datetime(1,1,1)\<close>, the value \<open>read_datetime\<close> returns on failure.\<close>

definition sentinel :: datetime where
  "sentinel = \<lparr>year = 1, month = 1, day = 1, hour = 0, minute = 0, second = 0\<rparr>"

subsection \<open>The transport: \<open>_send_to_device\<close>\<close>

text \<open>
  The client's parameters, the fields the constructor sets.
\<close>

record config =
  d_address :: string
  d_port :: int
  access_code :: string
  default_timeout :: int

text \<open>
  What \<open>_send_to_device\<close> returns: \<open>False\<close> or the bytes read. \<open>truthy\<close> is the test
  \<open>if response:\<close>, and \<open>py_eq r c\<close> is \<open>r == c\<close> for a \<open>bytes\<close> constant \<open>c\<close>, which is
  false for \<open>False\<close>.
\<close>

datatype reply = PyFalse | PyBytes "byte list"

fun truthy :: "reply \<Rightarrow> bool" where
  "truthy PyFalse = False"
| "truthy (PyBytes bs) = (bs \<noteq> [])"

fun py_eq :: "reply \<Rightarrow> byte list \<Rightarrow> bool" where
  "py_eq PyFalse c = False"
| "py_eq (PyBytes bs) c = (bs = c)"

text \<open>
  The network is outside the program. A \<open>session\<close> says how the peer and the socket layer
  behave on one connection: whether \<open>connect\<close>, each \<open>send\<close> and each \<open>recv\<close> returns or
  raises, and the bytes that are waiting to be read. A \<open>device\<close> gives the session of the
  \<open>n\<close>-th connection the program opens. The state \<open>net\<close> counts the connections opened
  and logs every socket call, so that no network I/O is: the state does not change.
  Creating the socket object itself is taken to succeed.
\<close>

record session =
  on_connect :: "exn option"
  on_send_code :: "exn option"
  on_recv_ack :: "exn + byte list"
  on_send :: "exn option"
  on_recv :: "exn + byte list"

type_synonym device = "nat \<Rightarrow> session"

datatype event = Connect string int int | Send "byte list" | Recv nat | Close

record net =
  conns :: nat
  log :: "event list"

definition emit :: "event \<Rightarrow> net \<Rightarrow> net" where
  "emit e s = s\<lparr>log := log s @ [e]\<rparr>"

text \<open>
  Lines 101 to 104: send the message, read at most \<open>response_size\<close> bytes once, close.
\<close>

definition send_message :: "session \<Rightarrow> byte list \<Rightarrow> nat \<Rightarrow> net \<Rightarrow> (exn + reply) \<times> net" where
  "send_message k message response_size s =
     (let s1 = emit (Send message) s in
      case on_send k of
        Some e \<Rightarrow> (Inl e, s1)
      | None \<Rightarrow>
          (let s2 = emit (Recv response_size) s1 in
           case on_recv k of
             Inl e \<Rightarrow> (Inl e, s2)
           | Inr r \<Rightarrow> (Inr (PyBytes (take response_size r)), emit Close s2)))"

text \<open>
  \<open>settimeout\<close> converts the timeout to a 64-bit count of nanoseconds: a number of seconds of
  magnitude above 9223372036 raises \<open>OverflowError\<close>, and a negative one that converts
  raises \<open>ValueError\<close>; in both cases no socket call follows. Only \<open>socket.timeout\<close> raised
  by \<open>connect\<close> is caught; every other exception of a socket call leaves the method.
\<close>

definition send_to_device ::
  "config \<Rightarrow> device \<Rightarrow> byte list \<Rightarrow> nat \<Rightarrow> int \<Rightarrow> net \<Rightarrow> (exn + reply) \<times> net" where
  "send_to_device cfg dev message response_size conn_timeout s =
     (if conn_timeout < - 9223372036 \<or> 9223372036 < conn_timeout then (Inl OverflowError, s)
      else if conn_timeout < 0 then (Inl ValueError, s)
      else
        (let k = dev (conns s);
             s1 = emit (Connect (d_address cfg) (d_port cfg) conn_timeout) (s\<lparr>conns := conns s + 1\<rparr>)
         in case on_connect k of
              Some e \<Rightarrow> if e = SocketTimeout then (Inr PyFalse, s1) else (Inl e, s1)
            | None \<Rightarrow>
                if access_code cfg \<noteq> []
                then
                  (let s2 = emit (Send (utf8_encode (access_code cfg))) s1 in
                   case on_send_code k of
                     Some e \<Rightarrow> (Inl e, s2)
                   | None \<Rightarrow>
                       (let s3 = emit (Recv 12) s2 in
                        case on_recv_ack k of
                          Inl e \<Rightarrow> (Inl e, s3)
                        | Inr ack \<Rightarrow>
                            if take 12 ack = [] then (Inr PyFalse, s3)
                            else send_message k message response_size s3))
                else send_message k message response_size s1))"

subsection \<open>\<open>write_id_str\<close>\<close>

text \<open>The comparison of one reply with the expected echo, lifted over an exception.\<close>

definition expect :: "byte list \<Rightarrow> (exn + reply) \<times> net \<Rightarrow> (exn + bool) \<times> net" where
  "expect c res = (case res of (Inl e, s) \<Rightarrow> (Inl e, s) | (Inr r, s) \<Rightarrow> (Inr (py_eq r c), s))"

definition write_id_str ::
  "config \<Rightarrow> device \<Rightarrow> int \<Rightarrow> string \<Rightarrow> string \<Rightarrow> int \<Rightarrow> net \<Rightarrow> (exn + bool) \<times> net" where
  "write_id_str cfg dev which_row row2 row3 timeout s =
     (if length row2 > 20 \<or> length row3 > 20 then (Inr False, s)
      else
        (let timeout = (if timeout = 0 then default_timeout cfg else timeout) in
         case add_checksum (''0001'' @ row2) of
           Inl e \<Rightarrow> (Inl e, s)
         | Inr msg_row2 \<Rightarrow>
             if which_row = 0 then
               (case add_checksum (''0002'' @ row3) of
                  Inl e \<Rightarrow> (Inl e, s)
                | Inr msg_row3 \<Rightarrow>
                    (case expect [0, 1, 1] (send_to_device cfg dev msg_row2 3 timeout s) of
                       (Inl e, s1) \<Rightarrow> (Inl e, s1)
                     | (Inr ok2, s1) \<Rightarrow>
                         if ok2
                         then expect [0, 2, 2] (send_to_device cfg dev msg_row3 3 timeout s1)
                         else (Inr False, s1)))
             else if which_row = 2 then
               expect [0, 1, 1] (send_to_device cfg dev msg_row2 3 timeout s)
             else if which_row = 3 then
               (case add_checksum (''0002'' @ row2) of
                  Inl e \<Rightarrow> (Inl e, s)
                | Inr msg_row3 \<Rightarrow>
                    expect [0, 2, 2] (send_to_device cfg dev msg_row3 3 timeout s))
             else (Inr False, s)))"

subsection \<open>\<open>read_datetime\<close>\<close>

text \<open>
  Lines 203 to 209, on the list \<open>response\<close> of the strings that \<open>_bcdDigits\<close> yielded:
  the fields are read in the order year, month, day, hour, minute, second, and the first
  \<open>int\<close> that fails raises.
\<close>

definition datetime_of_digits :: "string list \<Rightarrow> exn + datetime" where
  "datetime_of_digits ds =
     (case py_int 10 (''20'' @ concat (slice 4 6 ds)) of Inl e \<Rightarrow> Inl e | Inr y \<Rightarrow>
     (case py_int 10 (concat (slice 2 4 ds)) of Inl e \<Rightarrow> Inl e | Inr m \<Rightarrow>
     (case py_int 10 (concat (take 2 ds)) of Inl e \<Rightarrow> Inl e | Inr d \<Rightarrow>
     (case py_int 10 (concat (slice 6 8 ds)) of Inl e \<Rightarrow> Inl e | Inr h \<Rightarrow>
     (case py_int 10 (concat (slice 8 10 ds)) of Inl e \<Rightarrow> Inl e | Inr mi \<Rightarrow>
     (case py_int 10 (concat (drop 10 ds)) of Inl e \<Rightarrow> Inl e | Inr sec \<Rightarrow>
      mk_datetime y m d h mi sec))))))"

text \<open>
  Lines 200 to 211, on the value \<open>_send_to_device\<close> returned: when it is truthy, the bytes
  2 to 7 are decoded to a \<open>str\<close> and the characters go through \<open>_bcdDigits\<close>; otherwise
  the result is \<open>datetime(1,1,1)\<close>.
\<close>

definition datetime_of_reply :: "reply \<Rightarrow> exn + datetime" where
  "datetime_of_reply response =
     (if truthy response
      then (case response of
              PyFalse \<Rightarrow> Inr sentinel
            | PyBytes bs \<Rightarrow>
                (case utf8_decode (slice 2 8 bs) of
                   None \<Rightarrow> Inl UnicodeDecodeError
                 | Some chars \<Rightarrow> datetime_of_digits (bcdDigits chars)))
      else Inr sentinel)"

definition read_datetime :: "config \<Rightarrow> device \<Rightarrow> int \<Rightarrow> net \<Rightarrow> (exn + datetime) \<times> net" where
  "read_datetime cfg dev timeout s =
     (let timeout = (if timeout = 0 then default_timeout cfg else timeout) in
      case send_to_device cfg dev [0, 12, 12] 10 timeout s of
        (Inl e, s1) \<Rightarrow> (Inl e, s1)
      | (Inr response, s1) \<Rightarrow> (datetime_of_reply response, s1))"

subsection \<open>\<open>reset\<close> and \<open>refresh_rx\<close>\<close>



subsection \<open>Concrete clients, devices and states\<close>

text \<open>
  A client without access code, the state before any socket call, a device that accepts
  every connection and answers with the bytes \<open>r\<close>, a device that accepts the connection
  and then sends nothing, so that \<open>recv\<close> raises \<open>socket.timeout\<close>, and a device no
  connection reaches before the timeout.
\<close>

definition example_config :: config where
  "example_config =
     \<lparr>d_address = ''192.168.0.10'', d_port = 9000, access_code = [], default_timeout = 1\<rparr>"

definition init_net :: net where
  "init_net = \<lparr>conns = 0, log = []\<rparr>"

definition answering :: "byte list \<Rightarrow> device" where
  "answering r =
     (\<lambda>n. \<lparr>on_connect = None, on_send_code = None, on_recv_ack = Inr [],
            on_send = None, on_recv = Inr r\<rparr>)"

definition silent :: device where
  "silent =
     (\<lambda>n. \<lparr>on_connect = None, on_send_code = None, on_recv_ack = Inr [],
            on_send = None, on_recv = Inl SocketTimeout\<rparr>)"

definition unreachable :: device where
  "unreachable =
     (\<lambda>n. \<lparr>on_connect = Some SocketTimeout, on_send_code = None, on_recv_ack = Inr [],
            on_send = None, on_recv = Inr []\<rparr>)"

section \<open>Properties of the frame codec\<close>

subsection \<open>Hexadecimal digits\<close>

lemma hex_val_lt: "hex_val c = Some v \<Longrightarrow> v < 16"
  by (auto simp: hex_val_def Let_def split: if_splits)

lemma hex_val_hex_digit: "n < 16 \<Longrightarrow> hex_val (hex_digit n) = Some n"
  by (auto simp: hex_val_def hex_digit_def Let_def)

lemma is_hex_not_space: "is_hex c \<Longrightarrow> \<not> is_space c"
  by (auto simp: is_hex_def hex_val_def is_space_def Let_def split: if_splits)

lemma is_hex_not_sign: "is_hex c \<Longrightarrow> c \<noteq> CHR ''-'' \<and> c \<noteq> CHR ''+''"
  by (auto simp: is_hex_def hex_val_def Let_def split: if_splits)

lemma is_hex_ascii: "is_hex c \<Longrightarrow> (of_char c :: nat) < 128"
  by (auto simp: is_hex_def hex_val_def Let_def split: if_splits)

lemma py_int16_pair:
  assumes "hex_val a = Some h" "hex_val b = Some l"
  shows "py_int 16 [a, b] = Inr (int (16 * h + l))"
proof -
  have ha: "is_hex a" and hb: "is_hex b" using assms by (simp_all add: is_hex_def)
  have s: "strip [a, b] = [a, b]"
    using is_hex_not_space [OF ha] is_hex_not_space [OF hb] by (simp add: strip_def)
  have d: "digits_val 16 0 [a, b] = Some (16 * h + l)"
    using assms hex_val_lt [OF assms(1)] hex_val_lt [OF assms(2)]
    by (simp add: digit_val_def)
  show ?thesis
    unfolding py_int_def s
    using is_hex_not_sign [OF ha] by (simp add: d Let_def del: digits_val.simps)
qed

lemma unat_byte_of_pair: "h < 16 \<Longrightarrow> l < 16 \<Longrightarrow> unat (of_nat (16 * h + l) :: byte) = 16 * h + l"
  by (simp only: unat_of_nat) simp

lemma hex_payload:
  "even (length h) \<Longrightarrow> \<forall>c\<in>set h. is_hex c \<Longrightarrow>
   \<exists>p. unhex h = Some p \<and> length p = length h div 2
       \<and> sum_int16 (pairs h) = Inr (int (sum_list (map unat p)))"
proof (induction h rule: unhex.induct)
  case 1
  then show ?case by simp
next
  case (2 a)
  then show ?case by simp
next
  case (3 a b r)
  from "3.prems" obtain hh ll where hv: "hex_val a = Some hh" "hex_val b = Some ll"
    by (auto simp: is_hex_def)
  from "3.prems" have "even (length r)" "\<forall>c\<in>set r. is_hex c" by simp_all
  with "3.IH" [OF hv] obtain p where p: "unhex r = Some p" "length p = length r div 2"
    "sum_int16 (pairs r) = Inr (int (sum_list (map unat p)))" by blast
  have u: "unat (of_nat (16 * hh + ll) :: byte) = 16 * hh + ll"
    by (rule unat_byte_of_pair [OF hex_val_lt [OF hv(1)] hex_val_lt [OF hv(2)]])
  have "unhex (a # b # r) = Some (of_nat (16 * hh + ll) # p)"
    using hv p by simp
  moreover have "sum_int16 (pairs (a # b # r)) = Inr (int (sum_list (map unat (of_nat (16 * hh + ll) # p))))"
    using py_int16_pair [OF hv] p(3) by (simp add: u del: of_nat_add of_nat_mult)
  ultimately show ?case using p(2) by simp
qed

lemma unhex_append:
  "unhex s = Some p \<Longrightarrow>
   unhex (s @ t) = (case unhex t of None \<Rightarrow> None | Some q \<Rightarrow> Some (p @ q))"
proof (induction s arbitrary: p rule: unhex.induct)
  case 1
  then show ?case by (simp split: option.splits)
next
  case (2 a)
  then show ?case by simp
next
  case (3 a b r)
  then show ?case
    by (auto split: option.splits)
qed

lemma hex_digits_small: "n < 16 \<Longrightarrow> hex_digits n = [hex_digit n]"
  by (simp add: hex_digits.simps)

lemma hex_digits_two: "16 \<le> n \<Longrightarrow> n < 256 \<Longrightarrow> hex_digits n = [hex_digit (n div 16), hex_digit (n mod 16)]"
  by (subst hex_digits.simps) (simp add: hex_digits_small)

lemma hex_digits_snoc: "16 \<le> n \<Longrightarrow> hex_digits n = hex_digits (n div 16) @ [hex_digit (n mod 16)]"
  by (subst hex_digits.simps) simp

lemma hex_digits_last2:
  assumes "256 \<le> n"
  shows "hex_digits n = hex_digits (n div 256) @ [hex_digit (n div 16 mod 16), hex_digit (n mod 16)]"
proof -
  have "16 \<le> n" "16 \<le> n div 16" using assms by simp_all
  moreover have "n div 16 div 16 = n div 256" by (simp add: div_mult2_eq)
  ultimately show ?thesis
    using hex_digits_snoc [of n] hex_digits_snoc [of "n div 16"] by simp
qed

lemma hex_val_0: "hex_val (CHR ''0'') = Some 0"
  by (simp add: hex_val_def)

lemma hex_val_x: "hex_val (CHR ''x'') = None"
  by (simp add: hex_val_def)

lemma hex_digit_0: "hex_digit 0 = CHR ''0''"
  by code_simp

lemma hex_digit_not_0x: "0 < n \<Longrightarrow> n < 16 \<Longrightarrow> hex_digit n \<noteq> CHR ''0'' \<and> hex_digit n \<noteq> CHR ''x''"
  using hex_val_hex_digit [of n] hex_val_0 hex_val_x by auto

lemma cs_str_hex:
  "zfill 2 (if int n > 255 then last2 (py_hex (int n)) else lstrip ''0x'' (py_hex (int n)))
   = [hex_digit (n div 16 mod 16), hex_digit (n mod 16)]"
proof -
  consider "n = 0" | "0 < n" "n < 16" | "16 \<le> n" "n < 256" | "256 \<le> n" by linarith
  then show ?thesis
  proof cases
    case 1
    then show ?thesis
      by (simp add: py_hex_def hex_digits_small lstrip_def zfill_def hex_digit_0 numeral_2_eq_2)
  next
    case 2
    then show ?thesis
      using hex_digit_not_0x [of n] hex_val_hex_digit [of n] is_hex_not_sign [of "hex_digit n"]
      by (simp add: py_hex_def hex_digits_small lstrip_def zfill_def hex_digit_0 is_hex_def)
  next
    case 3
    then have "0 < n div 16" "n div 16 < 16" by (simp_all add: div_greater_zero_iff less_mult_imp_div_less)
    then show ?thesis
      using 3 hex_digit_not_0x [of "n div 16"]
      by (simp add: py_hex_def hex_digits_two lstrip_def zfill_def)
  next
    case 4
    then show ?thesis
      by (simp add: py_hex_def hex_digits_last2 last2_def zfill_def)
  qed
qed

lemma unhex_cs: "unhex [hex_digit (n div 16 mod 16), hex_digit (n mod 16)] = Some [of_nat (n mod 256)]"
proof -
  have "16 * (n div 16 mod 16) + n mod 16 = n mod 256"
    using mod_mult2_eq [of n 16 16] by simp
  then show ?thesis
    by (simp add: hex_val_hex_digit del: of_nat_add of_nat_mult)
qed


lemma add_checksum_hex:
  assumes "even (length h)" and "\<forall>c\<in>set h. is_hex c"
  shows "\<exists>p. unhex h = Some p \<and> length p = length h div 2
           \<and> add_checksum h = Inr (p @ [of_nat (sum_list (map unat p) mod 256)])"
proof -
  from hex_payload [OF assms] obtain p where p: "unhex h = Some p" "length p = length h div 2"
    "sum_int16 (pairs h) = Inr (int (sum_list (map unat p)))" by blast
  define n where "n = sum_list (map unat p)"
  have ascii: "\<not> list_ex (\<lambda>c. 128 \<le> (of_char c :: nat)) (h @ [hex_digit (n div 16 mod 16), hex_digit (n mod 16)])"
    using assms(2) is_hex_ascii
    by (auto simp: list_ex_iff hex_digit_def not_le)
  have u: "unhex (h @ [hex_digit (n div 16 mod 16), hex_digit (n mod 16)]) = Some (p @ [of_nat (n mod 256)])"
    by (simp add: unhex_append [OF p(1)] unhex_cs del: unhex.simps)
  have "add_checksum h = Inr (p @ [of_nat (n mod 256)])"
    unfolding add_checksum_def p(3) n_def [symmetric]
    by (simp only: sum.case Let_def cs_str_hex a2b_hex_def ascii u if_False option.case)
  then show ?thesis
    using p by (simp add: n_def)
qed

text \<open>
  C1. For every even-length string \<open>h\<close> of hexadecimal digits, \<open>_add_checksum\<close> returns
  a byte sequence of length \<open>len(h)/2 + 1\<close>: the bytes that \<open>h\<close> spells, followed by
  one byte that equals the sum of all the bytes before it modulo 256. Recomputing the
  checksum over the frame without its last byte gives that last byte.
\<close>

theorem add_checksum_frame:
  assumes "even (length h)" and "\<forall>c\<in>set h. is_hex c"
  shows "\<exists>bs. add_checksum h = Inr bs \<and> length bs = length h div 2 + 1
           \<and> unhex h = Some (butlast bs)
           \<and> unat (last bs) = sum_list (map unat (butlast bs)) mod 256
           \<and> last bs = checksum (butlast bs)"
proof -
  from add_checksum_hex [OF assms] obtain p where p: "unhex h = Some p"
    "length p = length h div 2"
    "add_checksum h = Inr (p @ [of_nat (sum_list (map unat p) mod 256)])" by blast
  have "unat (of_nat (sum_list (map unat p) mod 256) :: byte) = sum_list (map unat p) mod 256"
    by (simp only: unat_of_nat) simp
  then show ?thesis
    using p by (simp add: checksum_def)
qed

theorem add_checksum_frame_witness:
  "even (length ''0001'') \<and> list_all is_hex ''0001''
   \<and> (\<exists>bs. add_checksum ''0001'' = Inr bs \<and> length bs = length ''0001'' div 2 + 1
           \<and> unhex ''0001'' = Some (butlast bs)
           \<and> unat (last bs) = sum_list (map unat (butlast bs)) mod 256
           \<and> last bs = checksum (butlast bs))"
proof -
  have e: "even (length ''0001'')" by simp
  have h: "\<forall>c\<in>set ''0001''. is_hex c" by (simp add: is_hex_def hex_val_def)
  show ?thesis using e h add_checksum_frame [OF e h] by (simp add: list_all_iff)
qed

subsection \<open>\<open>_remove_extra_byte\<close>\<close>

text \<open>
  The second operand of the first comparison is the empty slice \<open>input_hex[2:2]\<close>, so the
  condition never holds and the function returns every input as it is.
\<close>

lemma remove_extra_byte_id: "remove_extra_byte s = s"
  by (cases s) (auto simp: remove_extra_byte_def slice_def)

text \<open>
  C5. The claim says that an input that begins with two bytes \<open>0x00\<close> loses its first
  byte. The code returns \<open>"0000"\<close> unchanged, where the claim gives \<open>"00"\<close>.
\<close>

theorem remove_extra_byte_0000: "remove_extra_byte ''0000'' = ''0000''"
  by (simp add: remove_extra_byte_def slice_def)

section \<open>Properties of the session client\<close>

subsection \<open>\<open>write_id_str\<close>: rows that are too long, rows that do not exist\<close>

text \<open>
  C8. When \<open>row2\<close> or \<open>row3\<close> has more than 20 characters, \<open>write_id_str\<close> returns
  \<open>False\<close> and the network state is the one before the call: no connection was opened
  and nothing was sent.
\<close>

theorem write_id_str_too_long:
  "length row2 > 20 \<or> length row3 > 20 \<Longrightarrow>
   write_id_str cfg dev which_row row2 row3 timeout s = (Inr False, s)"
  by (simp add: write_id_str_def)

theorem write_id_str_too_long_witness:
  "length ''000000000000000000000'' > 20
   \<and> write_id_str example_config (answering [0, 1, 1]) 2 ''000000000000000000000'' '''' 0 init_net
       = (Inr False, init_net)"
proof -
  have l: "length ''000000000000000000000'' > 20 \<or> length '''' > 20" by simp
  show ?thesis
    using write_id_str_too_long [OF l, of example_config "answering [0, 1, 1]" 2 0 init_net]
    by simp
qed

lemma is_hex_0001: "\<forall>c\<in>set ''0001''. is_hex c"
  by (simp add: is_hex_def hex_val_def)

lemma write_id_str_other_row:
  assumes w: "which_row \<noteq> 0" "which_row \<noteq> 2" "which_row \<noteq> 3"
    and l: "length row2 \<le> 20" "length row3 \<le> 20"
  shows "snd (write_id_str cfg dev which_row row2 row3 timeout s) = s"
    and "even (length row2) \<Longrightarrow> \<forall>c\<in>set row2. is_hex c \<Longrightarrow>
         fst (write_id_str cfg dev which_row row2 row3 timeout s) = Inr False"
proof -
  show "snd (write_id_str cfg dev which_row row2 row3 timeout s) = s"
    using w l by (simp add: write_id_str_def Let_def split: sum.splits)
next
  assume e: "even (length row2)" and h: "\<forall>c\<in>set row2. is_hex c"
  have "even (length (''0001'' @ row2))" using e by simp
  moreover have "\<forall>c\<in>set (''0001'' @ row2). is_hex c" using h is_hex_0001 by auto
  ultimately obtain p where "add_checksum (''0001'' @ row2) = Inr p"
    using add_checksum_hex by blast
  then show "fst (write_id_str cfg dev which_row row2 row3 timeout s) = Inr False"
    using w l by (simp add: write_id_str_def Let_def)
qed

lemma write_id_str_unknown_row:
  assumes "which_row \<notin> {0, 2, 3}" and "length row2 \<le> 20" and "length row3 \<le> 20"
  shows "snd (write_id_str cfg dev which_row row2 row3 timeout s) = s
         \<and> (even (length row2) \<and> (\<forall>c\<in>set row2. is_hex c) \<longrightarrow>
              write_id_str cfg dev which_row row2 row3 timeout s = (Inr False, s))"
  using assms write_id_str_other_row [of which_row row2 row3 cfg dev timeout s]
  by (auto simp: prod_eq_iff)

lemma add_checksum_0001HELLO: "add_checksum ''0001HELLO'' = Inl ValueError"
  by (simp add: add_checksum_def py_int_def strip_def is_space_def digit_val_def hex_val_def Let_def)

text \<open>
  C10. The claim says that a \<open>which_row\<close> outside \<open>{0, 2, 3}\<close> with rows of at most 20
  characters gives \<open>False\<close> without network I/O. The frame of row 2 is built before
  \<open>which_row\<close> is looked at, and \<open>_add_checksum\<close> reads the row as hexadecimal digits:
  with \<open>which_row = 1\<close> and the text \<open>row2 = "HELLO"\<close> the call raises \<open>ValueError\<close> and
  does not return \<open>False\<close>. No socket call is made.
\<close>

theorem write_id_str_unknown_row_raises:
  "write_id_str example_config (answering [0, 1, 1]) 1 ''HELLO'' '''' 0 init_net
     = (Inl ValueError, init_net)
   \<and> write_id_str example_config (answering [0, 1, 1]) 1 ''HELLO'' '''' 0 init_net
     \<noteq> (Inr False, init_net)"
  using add_checksum_0001HELLO by (simp add: write_id_str_def Let_def)

subsection \<open>The operations that answer with a truth value\<close>


lemma send_answering:
  "0 \<le> t \<Longrightarrow> t \<le> 9223372036 \<Longrightarrow>
   send_to_device example_config (answering r) msg n t init_net =
     (Inr (PyBytes (take n r)),
      \<lparr>conns = 1, log = [Connect ''192.168.0.10'' 9000 t, Send msg, Recv n, Close]\<rparr>)"
  by (simp add: send_to_device_def send_message_def example_config_def answering_def init_net_def
      emit_def Let_def)



subsection \<open>\<open>write_id_str\<close>: the frame of row 3\<close>

lemma add_checksum_000241: "add_checksum ''000241'' = Inr [0, 2, 65, 67]"
  by code_simp

lemma add_checksum_000141: "add_checksum ''000141'' = Inr [0, 1, 65, 66]"
  by code_simp

lemma add_checksum_000242: "add_checksum ''000242'' = Inr [0, 2, 66, 68]"
  by code_simp

lemma write_id_str_row3_ignores_row3:
  "length row3 \<le> 20 \<Longrightarrow> length row3' \<le> 20 \<Longrightarrow>
   write_id_str cfg dev 3 row2 row3 timeout s = write_id_str cfg dev 3 row2 row3' timeout s"
  by (simp add: write_id_str_def Let_def split: sum.splits)

text \<open>
  C7. The claim says that the frame sent for row 3 is the checksummed \<open>"0002" + row3\<close>.
  With \<open>which_row = 3\<close>, \<open>row2 = "41"\<close> and \<open>row3 = "42"\<close> the only frame the code sends is
  \<open>00 02 41 43\<close>, the checksummed \<open>"0002" + row2\<close>; the frame of the claim is
  \<open>00 02 42 44\<close>.
\<close>

theorem write_id_str_row3_sends_row2:
  "write_id_str example_config (answering [0, 2, 2]) 3 ''41'' ''42'' 0 init_net
     = (Inr True,
        \<lparr>conns = 1, log = [Connect ''192.168.0.10'' 9000 1, Send [0, 2, 65, 67], Recv 3, Close]\<rparr>)
   \<and> add_checksum (''0002'' @ ''41'') = Inr [0, 2, 65, 67]
   \<and> add_checksum (''0002'' @ ''42'') = Inr [0, 2, 66, 68]"
  using send_answering [of 1 "[0, 2, 2]" "[0, 2, 65, 67]" 3]
  by (simp add: write_id_str_def add_checksum_000241 add_checksum_000141 add_checksum_000242
      expect_def example_config_def)

subsection \<open>\<open>read_datetime\<close>: a short reply\<close>

lemma py_int_empty: "py_int b [] = Inl ValueError"
  by (simp add: py_int_def strip_def)

lemma datetime_of_short_reply: "datetime_of_reply (PyBytes [0, 12]) = Inl ValueError"
proof -
  have "py_int 10 ''20'' = Inr 20"
    by (simp add: py_int_def strip_def is_space_def digit_val_def hex_val_def Let_def)
  then show ?thesis
    by (simp add: datetime_of_reply_def datetime_of_digits_def slice_def py_int_empty)
qed

text \<open>
  C6. The claim says that no failure of the exchange leaves an operation as an exception.
  When the device answers \<open>read_datetime\<close> with the two bytes \<open>00 0c\<close> only, the reply is
  not empty, no digit is decoded, and \<open>int('')\<close> for the month raises \<open>ValueError\<close>.
\<close>

theorem read_datetime_short_reply_raises:
  "read_datetime example_config (answering [0, 12]) 0 init_net
     = (Inl ValueError,
        \<lparr>conns = 1, log = [Connect ''192.168.0.10'' 9000 1, Send [0, 12, 12], Recv 10, Close]\<rparr>)"
  using send_answering [of 1 "[0, 12]" "[0, 12, 12]" 10]
  by (simp add: read_datetime_def datetime_of_short_reply example_config_def)

section \<open>Properties of \<open>_bcdDigits\<close>\<close>

lemma nat_and_15: "(c::nat) AND 15 = c mod 16"
proof -
  have "mask 4 = (15::nat)" by (simp add: mask_eq_exp_minus_1)
  then show ?thesis
    using take_bit_eq_mask [of 4 c] take_bit_eq_mod [of 4 c] by simp
qed

lemma unat_and_15: "unat (b AND 15) = unat (b :: byte) AND 15"
  by (simp add: unsigned_and_eq)


lemma bcdDigits_unat_Cons:
  "bcdDigits (unat (b :: byte) # cs) =
     (if unat (drop_bit 4 b) = 15 then []
      else if unat (b AND 15) = 15 then [py_str (unat (drop_bit 4 b))]
      else py_str (unat (drop_bit 4 b)) # py_str (unat (b AND 15)) # bcdDigits cs)"
  by (simp add: unat_drop_bit_eq unat_and_15)

lemma bcdDigits_nibbles:
  "bcdDigits (map unat bs) = map py_str (takeWhile (\<lambda>v. v \<noteq> 15) (nibbles bs))"
proof (induction bs)
  case Nil
  show ?case by simp
next
  case (Cons b bs)
  have "bcdDigits (map unat (b # bs)) = bcdDigits (unat b # map unat bs)" by simp
  also have "\<dots> = map py_str (takeWhile (\<lambda>v. v \<noteq> 15) (nibbles (b # bs)))"
    unfolding bcdDigits_unat_Cons using Cons.IH by simp
  finally show ?case .
qed

lemma bcdDigits_example: "bcdDigits (map unat [0x12, 0x34, 0xFF :: byte]) = [''1'', ''2'', ''3'', ''4'']"
  by code_simp


lemma py_str_small: "v < 10 \<Longrightarrow> py_str v = [hex_digit v]"
  by (simp add: py_str.simps)

lemma length_py_str_large: "10 \<le> v \<Longrightarrow> 2 \<le> length (py_str v)"
proof -
  assume "10 \<le> v"
  then have "py_str v = py_str (v div 10) @ [hex_digit (v mod 10)]"
    by (subst py_str.simps) simp
  moreover have "1 \<le> length (py_str (v div 10))"
    by (subst py_str.simps) simp
  ultimately show ?thesis by simp
qed



lemma py_str_digit_char: "v \<le> 9 \<Longrightarrow> py_str v = digit_char v"
  by (simp add: py_str_small digit_char_def hex_digit_def)

lemma bcdDigits_bcd: "is_bcd bs \<Longrightarrow> bcdDigits (map unat bs) = decode_bcd_spec bs"
  unfolding bcdDigits_nibbles decode_bcd_spec_def is_bcd_def
  by (simp add: list_all_iff py_str_digit_char)

text \<open>
  A nibble from 10 to 14 is yielded as a string of two characters: the byte \<open>0x1C\<close> yields
  \<open>'1'\<close> and then \<open>'12'\<close>, which is no digit character.
\<close>

theorem bcdDigits_two_characters:
  "bcdDigits (map unat [0x1C :: byte]) = [''1'', ''12''] \<and> \<not> is_digit_char ''12''"
proof -
  have "bcdDigits (map unat [0x1C :: byte]) = [''1'', ''12'']" by code_simp
  then show ?thesis by (simp add: is_digit_char_def)
qed

text \<open>
  C2, amended. For every byte sequence \<open>_bcdDigits\<close> yields, byte by byte, the high nibble
  and then the low nibble, each printed by \<open>str\<close>, and it stops at the first nibble that
  equals \<open>0xF\<close>, yielding nothing from there on. When every nibble before that terminator
  is at most 9 (the bytes are binary-coded decimals), what it yields is exactly the digit
  characters of those nibbles. The bytes \<open>12 34 FF\<close> yield \<open>'1', '2', '3', '4'\<close>, and no
  bytes yield nothing.
\<close>

theorem bcdDigits_decode:
  "bcdDigits (map unat bs) = map py_str (takeWhile (\<lambda>v. v \<noteq> 15) (nibbles bs))
   \<and> (is_bcd bs \<longrightarrow> bcdDigits (map unat bs) = decode_bcd_spec bs)
   \<and> bcdDigits (map unat [0x12, 0x34, 0xFF :: byte]) = [''1'', ''2'', ''3'', ''4'']
   \<and> bcdDigits (map unat ([] :: byte list)) = []"
  using bcdDigits_nibbles [of bs] bcdDigits_bcd [of bs] bcdDigits_example by simp

theorem bcdDigits_decode_witness:
  "is_bcd [0x12, 0x34, 0xFF]
   \<and> bcdDigits (map unat [0x12, 0x34, 0xFF :: byte]) = decode_bcd_spec [0x12, 0x34, 0xFF]
   \<and> bcdDigits (map unat [0x12, 0x34, 0xFF :: byte]) = [''1'', ''2'', ''3'', ''4'']"
proof -
  have b: "is_bcd [0x12, 0x34, 0xFF]" by (simp add: is_bcd_def)
  from bcdDigits_decode [of "[0x12, 0x34, 0xFF]"]
  have t: "is_bcd [0x12, 0x34, 0xFF]
      \<longrightarrow> bcdDigits (map unat [0x12, 0x34, 0xFF :: byte]) = decode_bcd_spec [0x12, 0x34, 0xFF]"
    and e: "bcdDigits (map unat [0x12, 0x34, 0xFF :: byte]) = [''1'', ''2'', ''3'', ''4'']"
    by blast+
  from t b have "bcdDigits (map unat [0x12, 0x34, 0xFF :: byte]) = decode_bcd_spec [0x12, 0x34, 0xFF]"
    by blast
  with b e show ?thesis by blast
qed




section \<open>Properties of \<open>read_datetime\<close>\<close>

lemma py_str_single: "py_str v = [c] \<Longrightarrow> hex_val c = Some v"
proof (cases "v < 10")
  case True
  assume "py_str v = [c]"
  with True show ?thesis using hex_val_hex_digit [of v] by (simp add: py_str_small)
next
  case False
  assume "py_str v = [c]"
  with False length_py_str_large [of v] show ?thesis by simp
qed

lemma bcd_byte:
  assumes "bcdDigits (unat (b :: byte) # cs) = [ch] # [cl] # rest"
    and "hex_val ch = Some h" and "hex_val cl = Some l"
  shows "unat b = 16 * h + l \<and> bcdDigits cs = rest"
proof -
  from assms(1) have s: "py_str (drop_bit 4 (unat b)) = [ch]" "py_str (unat b AND 15) = [cl]"
    "bcdDigits cs = rest"
    by (simp_all split: if_splits)
  from py_str_single [OF s(1)] assms(2) have "unat b div 16 = h"
    by (simp add: drop_bit_nat_def)
  moreover from py_str_single [OF s(2)] assms(3) have "unat b mod 16 = l"
    by (simp add: nat_and_15)
  ultimately show ?thesis using s(3) by auto
qed

lemma length6: "length xs = 6 \<Longrightarrow> \<exists>a b c d e f. xs = [a, b, c, d, e, f]"
  by (auto simp: length_Suc_conv eval_nat_numeral)

lemma utf8_ascii: "\<forall>b\<in>set bs. unat b < 128 \<Longrightarrow> utf8_decode bs = Some (map unat bs)"
  by (induction bs) (simp_all add: Let_def)

lemma datetime_of_digits_example:
  "datetime_of_digits [''0'', ''5'', ''0'', ''9'', ''2'', ''3'', ''1'', ''4'', ''3'', ''0'', ''0'', ''0'']
   = Inr \<lparr>year = 2023, month = 9, day = 5, hour = 14, minute = 30, second = 0\<rparr>"
  by code_simp

lemma bcd_date_bytes:
  assumes "bcdDigits (map unat [b0, b1, b2, b3, b4, b5 :: byte])
           = [''0'', ''5'', ''0'', ''9'', ''2'', ''3'', ''1'', ''4'', ''3'', ''0'', ''0'', ''0'']"
  shows "\<forall>b\<in>set [b0, b1, b2, b3, b4, b5]. unat b < 128"
proof -
  have hv: "hex_val (CHR ''0'') = Some 0" "hex_val (CHR ''5'') = Some 5" "hex_val (CHR ''9'') = Some 9"
    "hex_val (CHR ''2'') = Some 2" "hex_val (CHR ''3'') = Some 3" "hex_val (CHR ''1'') = Some 1"
    "hex_val (CHR ''4'') = Some 4"
    by (simp_all add: hex_val_def)
  from assms have a0: "bcdDigits (unat b0 # map unat [b1, b2, b3, b4, b5])
      = ''0'' # ''5'' # [''0'', ''9'', ''2'', ''3'', ''1'', ''4'', ''3'', ''0'', ''0'', ''0'']" by simp
  from bcd_byte [OF a0 hv(1) hv(2)] have u0: "unat b0 = 5"
    and a1: "bcdDigits (unat b1 # map unat [b2, b3, b4, b5])
      = ''0'' # ''9'' # [''2'', ''3'', ''1'', ''4'', ''3'', ''0'', ''0'', ''0'']" by simp_all
  from bcd_byte [OF a1 hv(1) hv(3)] have u1: "unat b1 = 9"
    and a2: "bcdDigits (unat b2 # map unat [b3, b4, b5])
      = ''2'' # ''3'' # [''1'', ''4'', ''3'', ''0'', ''0'', ''0'']" by simp_all
  from bcd_byte [OF a2 hv(4) hv(5)] have u2: "unat b2 = 35"
    and a3: "bcdDigits (unat b3 # map unat [b4, b5])
      = ''1'' # ''4'' # [''3'', ''0'', ''0'', ''0'']" by simp_all
  from bcd_byte [OF a3 hv(6) hv(7)] have u3: "unat b3 = 20"
    and a4: "bcdDigits (unat b4 # map unat [b5]) = ''3'' # ''0'' # [''0'', ''0'']" by simp_all
  from bcd_byte [OF a4 hv(5) hv(1)] have u4: "unat b4 = 48"
    and a5: "bcdDigits (unat b5 # map unat []) = ''0'' # ''0'' # []" by simp_all
  from bcd_byte [OF a5 hv(1) hv(1)] have u5: "unat b5 = 0" by simp
  show ?thesis using u0 u1 u2 u3 u4 u5 by simp
qed

lemma datetime_of_reply_example:
  assumes "length r = 10"
    and "bcdDigits (map unat (slice 2 8 r))
           = [''0'', ''5'', ''0'', ''9'', ''2'', ''3'', ''1'', ''4'', ''3'', ''0'', ''0'', ''0'']"
  shows "datetime_of_reply (PyBytes r)
         = Inr \<lparr>year = 2023, month = 9, day = 5, hour = 14, minute = 30, second = 0\<rparr>"
proof -
  have "length (slice 2 8 r) = 6" using assms(1) by (simp add: slice_def)
  then obtain b0 b1 b2 b3 b4 b5 where sl: "slice 2 8 r = [b0, b1, b2, b3, b4, b5]"
    using length6 by blast
  have "\<forall>b\<in>set (slice 2 8 r). unat b < 128"
    unfolding sl by (rule bcd_date_bytes) (use assms(2) sl in simp)
  then have u: "utf8_decode (slice 2 8 r) = Some (map unat (slice 2 8 r))"
    by (rule utf8_ascii)
  have ne: "r \<noteq> []" using assms(1) by auto
  show ?thesis
    by (simp add: datetime_of_reply_def ne u assms(2) datetime_of_digits_example)
qed

lemma datetime_of_falsy: "\<not> truthy r \<Longrightarrow> datetime_of_reply r = Inr sentinel"
  by (simp add: datetime_of_reply_def)

lemma send_connect_timeout:
  "0 \<le> t \<Longrightarrow> t \<le> 9223372036 \<Longrightarrow>
   on_connect (dev (conns s)) = Some SocketTimeout \<Longrightarrow>
   fst (send_to_device cfg dev msg n t s) = Inr PyFalse"
  by (simp add: send_to_device_def Let_def)

text \<open>
  What \<open>read_datetime\<close> does with each value that \<open>_send_to_device\<close> returns: the reply
  of 10 bytes whose bytes 2 to 7 decode to \<open>05 09 23 14 30 00\<close> gives 2023-09-05 14:30:00,
  and \<open>False\<close> or no bytes give the sentinel, as a connection that times out does.
\<close>

lemma read_datetime_decodes:
  "(send_to_device cfg dev [0, 12, 12] 10 (if timeout = 0 then default_timeout cfg else timeout) s
      = (Inr (PyBytes r), s')
    \<and> length r = 10
    \<and> bcdDigits (map unat (slice 2 8 r))
        = [''0'', ''5'', ''0'', ''9'', ''2'', ''3'', ''1'', ''4'', ''3'', ''0'', ''0'', ''0'']
    \<longrightarrow> read_datetime cfg dev timeout s
        = (Inr \<lparr>year = 2023, month = 9, day = 5, hour = 14, minute = 30, second = 0\<rparr>, s'))
   \<and> (send_to_device cfg dev [0, 12, 12] 10 (if timeout = 0 then default_timeout cfg else timeout) s
      = (Inr q, s')
    \<and> \<not> truthy q
    \<longrightarrow> read_datetime cfg dev timeout s = (Inr sentinel, s'))
   \<and> (0 \<le> (if timeout = 0 then default_timeout cfg else timeout)
    \<and> (if timeout = 0 then default_timeout cfg else timeout) \<le> 9223372036
    \<and> on_connect (dev (conns s)) = Some SocketTimeout
    \<longrightarrow> fst (read_datetime cfg dev timeout s) = Inr sentinel)
   \<and> sentinel = \<lparr>year = 1, month = 1, day = 1, hour = 0, minute = 0, second = 0\<rparr>"
proof (intro conjI impI)
  assume "send_to_device cfg dev [0, 12, 12] 10 (if timeout = 0 then default_timeout cfg else timeout) s
      = (Inr (PyBytes r), s')
    \<and> length r = 10
    \<and> bcdDigits (map unat (slice 2 8 r))
        = [''0'', ''5'', ''0'', ''9'', ''2'', ''3'', ''1'', ''4'', ''3'', ''0'', ''0'', ''0'']"
  then show "read_datetime cfg dev timeout s
        = (Inr \<lparr>year = 2023, month = 9, day = 5, hour = 14, minute = 30, second = 0\<rparr>, s')"
    using datetime_of_reply_example [of r] by (simp add: read_datetime_def Let_def)
next
  assume "send_to_device cfg dev [0, 12, 12] 10 (if timeout = 0 then default_timeout cfg else timeout) s
      = (Inr q, s') \<and> \<not> truthy q"
  then show "read_datetime cfg dev timeout s = (Inr sentinel, s')"
    using datetime_of_falsy [of q] by (simp add: read_datetime_def Let_def)
next
  assume a: "0 \<le> (if timeout = 0 then default_timeout cfg else timeout)
    \<and> (if timeout = 0 then default_timeout cfg else timeout) \<le> 9223372036
    \<and> on_connect (dev (conns s)) = Some SocketTimeout"
  obtain x s1 where x: "send_to_device cfg dev [0, 12, 12] 10
      (if timeout = 0 then default_timeout cfg else timeout) s = (x, s1)"
    by (cases "send_to_device cfg dev [0, 12, 12] 10
      (if timeout = 0 then default_timeout cfg else timeout) s") auto
  with a send_connect_timeout [of "if timeout = 0 then default_timeout cfg else timeout" dev s cfg "[0, 12, 12]" 10]
  have "x = Inr PyFalse" by simp
  with x show "fst (read_datetime cfg dev timeout s) = Inr sentinel"
    by (simp add: read_datetime_def Let_def datetime_of_falsy)
next
  show "sentinel = \<lparr>year = 1, month = 1, day = 1, hour = 0, minute = 0, second = 0\<rparr>"
    by (simp add: sentinel_def)
qed

lemma read_datetime_decodes_example:
  "length [0, 12, 5, 9, 35, 20, 48, 0, 0, 12 :: byte] = 10
   \<and> bcdDigits (map unat (slice 2 8 [0, 12, 5, 9, 35, 20, 48, 0, 0, 12 :: byte]))
       = [''0'', ''5'', ''0'', ''9'', ''2'', ''3'', ''1'', ''4'', ''3'', ''0'', ''0'', ''0'']
   \<and> read_datetime example_config (answering [0, 12, 5, 9, 35, 20, 48, 0, 0, 12]) 0 init_net
       = (Inr \<lparr>year = 2023, month = 9, day = 5, hour = 14, minute = 30, second = 0\<rparr>,
          \<lparr>conns = 1, log = [Connect ''192.168.0.10'' 9000 1, Send [0, 12, 12], Recv 10, Close]\<rparr>)
   \<and> read_datetime example_config (answering []) 0 init_net
       = (Inr sentinel,
          \<lparr>conns = 1, log = [Connect ''192.168.0.10'' 9000 1, Send [0, 12, 12], Recv 10, Close]\<rparr>)
   \<and> on_connect (unreachable (conns init_net)) = Some SocketTimeout
   \<and> fst (read_datetime example_config unreachable 0 init_net) = Inr sentinel"
proof -
  let ?R = "[0, 12, 5, 9, 35, 20, 48, 0, 0, 12 :: byte]"
  let ?L = "\<lparr>conns = 1, log = [Connect ''192.168.0.10'' 9000 1, Send [0, 12, 12], Recv 10, Close]\<rparr>"
  have d: "(if (0::int) = 0 then default_timeout example_config else 0) = 1"
    by (simp add: example_config_def)
  have s1: "send_to_device example_config (answering ?R) [0, 12, 12] 10 1 init_net = (Inr (PyBytes ?R), ?L)"
    using send_answering [of 1 ?R "[0, 12, 12]" 10] by simp
  have s2: "send_to_device example_config (answering []) [0, 12, 12] 10 1 init_net = (Inr (PyBytes []), ?L)"
    using send_answering [of 1 "[]" "[0, 12, 12]" 10] by simp
  have b: "bcdDigits (map unat (slice 2 8 ?R))
       = [''0'', ''5'', ''0'', ''9'', ''2'', ''3'', ''1'', ''4'', ''3'', ''0'', ''0'', ''0'']"
    by code_simp
  have u: "on_connect (unreachable (conns init_net)) = Some SocketTimeout"
    by (simp add: unreachable_def)
  have t1: "read_datetime example_config (answering ?R) 0 init_net
       = (Inr \<lparr>year = 2023, month = 9, day = 5, hour = 14, minute = 30, second = 0\<rparr>, ?L)"
    using read_datetime_decodes [of example_config "answering ?R" 0 init_net ?R ?L] s1 b
    unfolding d by simp
  have t2: "read_datetime example_config (answering []) 0 init_net = (Inr sentinel, ?L)"
    using read_datetime_decodes [of example_config "answering []" 0 init_net _ ?L "PyBytes []"] s2
    unfolding d by simp
  have t3: "fst (read_datetime example_config unreachable 0 init_net) = Inr sentinel"
    using read_datetime_decodes [of example_config unreachable 0 init_net] u
    unfolding d by simp
  show ?thesis using b t1 t2 t3 u by simp
qed

lemma send_silent:
  "0 \<le> t \<Longrightarrow> t \<le> 9223372036 \<Longrightarrow>
   send_to_device example_config silent msg n t init_net =
     (Inl SocketTimeout,
      \<lparr>conns = 1, log = [Connect ''192.168.0.10'' 9000 t, Send msg, Recv n]\<rparr>)"
  by (simp add: send_to_device_def send_message_def example_config_def silent_def init_net_def
      emit_def Let_def)

text \<open>
  C3. The claim says that \<open>read_datetime\<close> returns the sentinel 0001-01-01 00:00:00
  whenever the transport fails, no bytes received included. When the device accepts the
  connection and then sends nothing, \<open>recv\<close> raises \<open>socket.timeout\<close>, nothing catches it,
  and \<open>read_datetime\<close> raises instead of returning the sentinel.
\<close>

theorem read_datetime_silent_peer_raises:
  "read_datetime example_config silent 0 init_net
     = (Inl SocketTimeout,
        \<lparr>conns = 1, log = [Connect ''192.168.0.10'' 9000 1, Send [0, 12, 12], Recv 10]\<rparr>)"
  using send_silent [of 1 "[0, 12, 12]" 10]
  by (simp add: read_datetime_def example_config_def)

end
